theory Spec2Isabelle
  imports Main "HOL-Library.AList" "HOL-Library.Char_ord" "HOL-Library.List_Lexorder"
begin

section \<open>KeyMaker: the encrypted vault, its wallets, its config record and its statistics\<close>

text \<open>
  The development embeds \<^verbatim>\<open>vault.py\<close> (class Vault), \<^verbatim>\<open>wallet.py\<close> (class Wallet),
  \<^verbatim>\<open>stats.py\<close> (class StatsManager) and the method \<^verbatim>\<open>save_api_keys\<close> of \<^verbatim>\<open>gui.py\<close>.

  All four work on an AES-encrypted ZIP archive through the library pyzipper, which is not
  part of the repository. The archive is modelled by what the library documents:
  \<^item> an archive is the ordered list of its entries; an entry has a name, a content (bytes),
    the password it was encrypted under and a modification time;
  \<^item> \<^verbatim>\<open>namelist()\<close> lists the names in order, duplicates included;
  \<^item> \<^verbatim>\<open>getinfo(name)\<close> and \<^verbatim>\<open>read(name)\<close> find the \<^emph>\<open>last\<close> entry of that name (the library
    keeps a dictionary from names to entries that later entries overwrite), and a missing
    name is a KeyError;
  \<^item> \<^verbatim>\<open>writestr(name, data)\<close> appends an entry, also when the name is already there;
  \<^item> reading an entry under another password than the one it was written under is the
    library's RuntimeError "Bad password for file" (the two-byte check value of the
    format, which a wrong password passes once in 65536 times, is not modelled);
  \<^item> opening for reading fails on a missing file (FileNotFoundError) and on a file that is
    not an archive (BadZipFile); opening for appending creates a missing file and appends
    to a file that is not an archive; opening for writing truncates.
  A byte is a \<^typ>\<open>char\<close>, a byte string a \<^typ>\<open>string\<close>. A Python text is a list of code
  points (\<^typ>\<open>nat list\<close>) where it is encoded or decoded; entry names, labels and
  passphrases are texts over the code points below 256 and are written as \<^typ>\<open>string\<close>.
  Entry names are stored as given: names with a NUL character or a foreign path separator,
  which the library rewrites, are outside the model, and so are the size limits and the
  year range (1980 to 2107) of the format.
\<close>

subsection \<open>Python built-ins\<close>

definition startswith :: "string \<Rightarrow> string \<Rightarrow> bool" where
  "startswith s p = (take (length p) s = p)"

definition endswith :: "string \<Rightarrow> string \<Rightarrow> bool" where
  "endswith s p = (drop (length s - length p) s = p)"

text \<open>\<^verbatim>\<open>s.replace(old, new)\<close>: every occurrence, found from the left, without overlaps.\<close>

function py_replace :: "string \<Rightarrow> string \<Rightarrow> string \<Rightarrow> string" where
  "py_replace old new [] = (if old = [] then new else [])"
| "py_replace old new (c # cs) =
     (if old = [] then new @ c # py_replace old new cs
      else if startswith (c # cs) old then new @ py_replace old new (drop (length old) (c # cs))
      else c # py_replace old new cs)"
  by pat_completeness auto
termination
  by (relation "measure (\<lambda>(old, new, s). length s)") auto

text \<open>
  \<^verbatim>\<open>int(s)\<close> for a text of code points below 256: white space around, one optional sign,
  decimal digits with single underscores between digits; anything else is a ValueError.
\<close>

definition is_space :: "char \<Rightarrow> bool" where
  "is_space c = (of_char c \<in> {9, 10, 11, 12, 13, 32, 133, 160 :: nat})"

definition is_digit :: "char \<Rightarrow> bool" where
  "is_digit c = (48 \<le> (of_char c :: nat) \<and> (of_char c :: nat) \<le> 57)"

definition digit_val :: "char \<Rightarrow> nat" where
  "digit_val c = of_char c - 48"

fun digits_acc :: "nat \<Rightarrow> string \<Rightarrow> nat option" where
  "digits_acc a [] = Some a"
| "digits_acc a (c # cs) =
     (if is_digit c then digits_acc (10 * a + digit_val c) cs
      else if c = CHR ''_'' then
        (case cs of
           [] \<Rightarrow> None
         | d # ds \<Rightarrow> if is_digit d then digits_acc (10 * a + digit_val d) ds else None)
      else None)"

definition digits :: "string \<Rightarrow> nat option" where
  "digits s =
     (case s of
        [] \<Rightarrow> None
      | c # cs \<Rightarrow> if is_digit c then digits_acc (digit_val c) cs else None)"

datatype exn =
    FileNotFoundError
  | BadZipFile
  | KeyError string
  | BadPassword string
  | UnicodeEncodeError
  | UnicodeDecodeError
  | PermissionError
  | OSError
  | AccountError
  | ValueError string
  | RuntimeError string "exn option"

text \<open>
  \<^const>\<open>BadPassword\<close> is the library's RuntimeError for a wrong password, \<^const>\<open>AccountError\<close>
  any exception of the wallet SDK. \<open>RuntimeError msg cause\<close> is a RuntimeError whose message
  is \<open>msg\<close> followed by the text of \<open>cause\<close>, as the f-strings of the source build it.
\<close>

fun is_RuntimeError :: "exn \<Rightarrow> bool" where
  "is_RuntimeError (RuntimeError _ _) = True"
| "is_RuntimeError (BadPassword _) = True"
| "is_RuntimeError _ = False"

definition py_int :: "string \<Rightarrow> exn + int" where
  "py_int s =
     (let t = dropWhile is_space s;
          neg = (t \<noteq> [] \<and> hd t = CHR ''-'');
          u = (if t \<noteq> [] \<and> (hd t = CHR ''-'' \<or> hd t = CHR ''+'') then tl t else t);
          v = rev (dropWhile is_space (rev u))
      in case digits v of
           None \<Rightarrow> Inl (ValueError ''invalid literal for int() with base 10'')
         | Some n \<Rightarrow> Inr (if neg then - int n else int n))"

text \<open>\<^verbatim>\<open>str(n)\<close>, as the f-strings format an integer.\<close>

fun str_nat :: "nat \<Rightarrow> string" where
  "str_nat n = (if n < 10 then [char_of (48 + n)] else str_nat (n div 10) @ [char_of (48 + n mod 10)])"

declare str_nat.simps [simp del]

definition str_int :: "int \<Rightarrow> string" where
  "str_int i = (if i < 0 then CHR ''-'' # str_nat (nat (- i)) else str_nat (nat i))"




subsection \<open>UTF-8\<close>

text \<open>
  \<^verbatim>\<open>text.encode("utf-8")\<close> fails on a surrogate; \<^verbatim>\<open>data.decode("utf-8")\<close> is strict: it
  fails on a stray or missing continuation byte, an overlong form, a surrogate and a code
  point beyond U+10FFFF.
\<close>

definition utf8_encode_cp :: "nat \<Rightarrow> nat list option" where
  "utf8_encode_cp c =
     (if c < 0x80 then Some [c]
      else if c < 0x800 then Some [0xC0 + c div 64, 0x80 + c mod 64]
      else if 0xD800 \<le> c \<and> c < 0xE000 then None
      else if c < 0x10000 then
        Some [0xE0 + c div 4096, 0x80 + (c div 64) mod 64, 0x80 + c mod 64]
      else if c < 0x110000 then
        Some [0xF0 + c div 262144, 0x80 + (c div 4096) mod 64,
              0x80 + (c div 64) mod 64, 0x80 + c mod 64]
      else None)"

fun utf8_encode :: "nat list \<Rightarrow> string option" where
  "utf8_encode [] = Some []"
| "utf8_encode (c # cs) =
     (case utf8_encode_cp c of
        None \<Rightarrow> None
      | Some bs \<Rightarrow> (case utf8_encode cs of
                     None \<Rightarrow> None
                   | Some r \<Rightarrow> Some (map char_of bs @ r)))"

definition is_cont :: "nat \<Rightarrow> bool" where
  "is_cont b = (0x80 \<le> b \<and> b < 0xC0)"

fun utf8_decode_nat :: "nat list \<Rightarrow> nat list option" where
  "utf8_decode_nat [] = Some []"
| "utf8_decode_nat (b0 # bs) =
     (if b0 < 0x80 then map_option ((#) b0) (utf8_decode_nat bs)
      else if 0xC2 \<le> b0 \<and> b0 < 0xE0 then
        (case bs of
           b1 # r \<Rightarrow>
             if is_cont b1
             then map_option ((#) ((b0 - 0xC0) * 64 + (b1 - 0x80))) (utf8_decode_nat r)
             else None
         | _ \<Rightarrow> None)
      else if 0xE0 \<le> b0 \<and> b0 < 0xF0 then
        (case bs of
           b1 # b2 # r \<Rightarrow>
             (let c = (b0 - 0xE0) * 4096 + (b1 - 0x80) * 64 + (b2 - 0x80)
              in if is_cont b1 \<and> is_cont b2 \<and> 0x800 \<le> c \<and> \<not> (0xD800 \<le> c \<and> c < 0xE000)
                 then map_option ((#) c) (utf8_decode_nat r)
                 else None)
         | _ \<Rightarrow> None)
      else if 0xF0 \<le> b0 \<and> b0 < 0xF5 then
        (case bs of
           b1 # b2 # b3 # r \<Rightarrow>
             (let c = (b0 - 0xF0) * 262144 + (b1 - 0x80) * 4096 + (b2 - 0x80) * 64 + (b3 - 0x80)
              in if is_cont b1 \<and> is_cont b2 \<and> is_cont b3 \<and> 0x10000 \<le> c \<and> c < 0x110000
                 then map_option ((#) c) (utf8_decode_nat r)
                 else None)
         | _ \<Rightarrow> None)
      else None)"

definition utf8_decode :: "string \<Rightarrow> nat list option" where
  "utf8_decode s = utf8_decode_nat (map of_char s)"


subsection \<open>Dates and the clock\<close>

text \<open>
  A time is the tuple (year, month, day, hour, minute, second) that the archive stores
  and that \<^verbatim>\<open>datetime(*info.date_time)\<close> takes; the constructor raises ValueError outside
  its ranges.
\<close>

type_synonym date_time = "nat \<times> nat \<times> nat \<times> nat \<times> nat \<times> nat"



definition pad2 :: "nat \<Rightarrow> string" where
  "pad2 n = (if n < 10 then CHR ''0'' # str_nat n else str_nat n)"

definition pad4 :: "nat \<Rightarrow> string" where
  "pad4 n = replicate (4 - length (str_nat n)) (CHR ''0'') @ str_nat n"


text \<open>\<^verbatim>\<open>strftime("%Y-%m-%d")\<close> and \<^verbatim>\<open>strftime("%Y-%m-%d %H:%M:%S")\<close>.\<close>

definition strftime_date :: "date_time \<Rightarrow> string" where
  "strftime_date t =
     (case t of (y, mo, d, h, mi, s) \<Rightarrow> pad4 y @ ''-'' @ pad2 mo @ ''-'' @ pad2 d)"

definition strftime_seconds :: "date_time \<Rightarrow> string" where
  "strftime_seconds t =
     (case t of (y, mo, d, h, mi, s) \<Rightarrow>
        strftime_date t @ '' '' @ pad2 h @ '':'' @ pad2 mi @ '':'' @ pad2 s)"

subsection \<open>The archive library\<close>

record zip_entry =
  filename :: string
  content :: string
  enc_key :: string
  date_time :: date_time

datatype disk_file = Missing | NotZip | Zip "zip_entry list"

type_synonym fs = "string \<Rightarrow> disk_file"

datatype file_data = Str "nat list" | Bytes string

definition open_r :: "disk_file \<Rightarrow> exn + zip_entry list" where
  "open_r f = (case f of Missing \<Rightarrow> Inl FileNotFoundError | NotZip \<Rightarrow> Inl BadZipFile | Zip es \<Rightarrow> Inr es)"

definition open_a :: "disk_file \<Rightarrow> zip_entry list" where
  "open_a f = (case f of Zip es \<Rightarrow> es | _ \<Rightarrow> [])"

definition namelist :: "zip_entry list \<Rightarrow> string list" where
  "namelist es = map filename es"

definition getinfo :: "zip_entry list \<Rightarrow> string \<Rightarrow> exn + zip_entry" where
  "getinfo es name =
     (case find (\<lambda>e. filename e = name) (rev es) of
        None \<Rightarrow> Inl (KeyError name)
      | Some e \<Rightarrow> Inr e)"

definition zf_read :: "string \<Rightarrow> zip_entry list \<Rightarrow> string \<Rightarrow> exn + string" where
  "zf_read pwd es name =
     (case getinfo es name of
        Inl e \<Rightarrow> Inl e
      | Inr e \<Rightarrow> if enc_key e = pwd then Inr (content e) else Inl (BadPassword name))"

definition encode_data :: "file_data \<Rightarrow> exn + string" where
  "encode_data d =
     (case d of
        Bytes b \<Rightarrow> Inr b
      | Str t \<Rightarrow> (case utf8_encode t of None \<Rightarrow> Inl UnicodeEncodeError | Some b \<Rightarrow> Inr b))"

definition writestr :: "string \<Rightarrow> date_time \<Rightarrow> zip_entry list \<Rightarrow> string \<Rightarrow> file_data
    \<Rightarrow> exn + zip_entry list" where
  "writestr pwd now es name d =
     (case encode_data d of
        Inl e \<Rightarrow> Inl e
      | Inr b \<Rightarrow>
          if pwd = [] then Inl (RuntimeError ''WZ_AES encryption requires a password.'' None)
          else Inr (es @ [\<lparr>filename = name, content = b, enc_key = pwd, date_time = now\<rparr>]))"

subsection \<open>vault.py: class Vault\<close>

record vault =
  path :: "string option"
  password :: "string option"

definition Vault :: vault where
  "Vault = \<lparr>path = None, password = None\<rparr>"

definition set_vault :: "vault \<Rightarrow> string \<Rightarrow> file_data \<Rightarrow> exn + vault" where
  "set_vault v p pw =
     (case encode_data pw of
        Inl e \<Rightarrow> Inl e
      | Inr b \<Rightarrow> Inr (v\<lparr>path := Some p, password := Some b\<rparr>))"



definition list_vault_contents :: "vault \<Rightarrow> fs \<Rightarrow> exn + string list" where
  "list_vault_contents v fs =
     (case (path v, password v) of
        (Some p, Some pw) \<Rightarrow>
          if p = [] \<or> pw = [] then Inl (ValueError ''Vault path and password must be set.'')
          else
            (case open_r (fs p) of
               Inl e \<Rightarrow> Inl (RuntimeError ''Error reading vault contents: '' (Some e))
             | Inr es \<Rightarrow> Inr (namelist es))
      | _ \<Rightarrow> Inl (ValueError ''Vault path and password must be set.''))"

text \<open>
  One pass through the body of the \<^verbatim>\<open>while\<close> loop of \<^verbatim>\<open>write_to_vault\<close>: the archive is
  opened for appending, the listing is checked, the entry is written. The file that the
  \<^verbatim>\<open>with\<close> block leaves is returned also when the body raised.
\<close>

definition write_attempt ::
    "string \<Rightarrow> date_time \<Rightarrow> disk_file \<Rightarrow> string \<Rightarrow> file_data \<Rightarrow> (exn + unit) \<times> disk_file" where
  "write_attempt pw now f file_name file_data =
     (let es = open_a f in
      if file_name \<in> set (namelist es)
      then (Inl (RuntimeError (''Duplicate file name: '' @ file_name) None), Zip es)
      else
        (case writestr pw now es file_name file_data of
           Inl e \<Rightarrow> (Inl e, Zip es)
         | Inr es' \<Rightarrow> (Inr (), Zip es')))"

fun write_loop ::
    "nat \<Rightarrow> string \<Rightarrow> date_time \<Rightarrow> string \<Rightarrow> file_data \<Rightarrow> disk_file \<Rightarrow> (exn + unit) \<times> disk_file" where
  "write_loop 0 pw now file_name file_data f = (Inr (), f)"
| "write_loop (Suc retries) pw now file_name file_data f =
     (case write_attempt pw now f file_name file_data of
        (Inr u, f') \<Rightarrow> (Inr (), f')
      | (Inl e, f') \<Rightarrow>
          if is_RuntimeError e then
            (if retries = 0
             then (Inl (RuntimeError ''Failed to write to vault after 3 attempts: '' (Some e)), f')
             else write_loop retries pw now file_name file_data f')
          else (Inl (RuntimeError ''Unexpected error during write: '' (Some e)), f'))"

definition write_to_vault ::
    "vault \<Rightarrow> string \<Rightarrow> file_data \<Rightarrow> date_time \<Rightarrow> fs \<Rightarrow> (exn + unit) \<times> fs" where
  "write_to_vault v file_name file_data now fs =
     (case (path v, password v) of
        (Some p, Some pw) \<Rightarrow>
          if p = [] \<or> pw = [] then (Inl (ValueError ''Vault path and password must be set.''), fs)
          else
            (case write_loop 3 pw now file_name file_data (fs p) of
               (res, f') \<Rightarrow> (res, fs(p := f')))
      | _ \<Rightarrow> (Inl (ValueError ''Vault path and password must be set.''), fs))"


subsection \<open>wallet.py: class Wallet\<close>

record wallet =
  vault_path :: string
  vault_password :: string

definition Wallet :: "string \<Rightarrow> file_data \<Rightarrow> exn + wallet" where
  "Wallet p pw =
     (case encode_data pw of
        Inl e \<Rightarrow> Inl e
      | Inr b \<Rightarrow> Inr \<lparr>vault_path = p, vault_password = b\<rparr>)"

definition list_wallets :: "wallet \<Rightarrow> fs \<Rightarrow> exn + string list" where
  "list_wallets w fs =
     (case open_r (fs (vault_path w)) of
        Inl e \<Rightarrow> Inl (RuntimeError ''Error listing wallets in vault: '' (Some e))
      | Inr es \<Rightarrow>
          Inr (filter (\<lambda>name. startswith name ''Matrix_User_'' \<and> endswith name ''.json'')
                 (namelist es)))"

text \<open>The body of the \<^verbatim>\<open>for\<close> loop of \<^verbatim>\<open>get_next_wallet_number\<close>.\<close>

definition highest_step :: "int \<Rightarrow> string \<Rightarrow> int" where
  "highest_step highest_number name =
     (let number_str = py_replace ''.json'' [] (py_replace ''Matrix_User_'' [] name) in
      case py_int number_str of
        Inl e \<Rightarrow> highest_number
      | Inr number \<Rightarrow> if number > highest_number then number else highest_number)"

definition get_next_wallet_number :: "wallet \<Rightarrow> fs \<Rightarrow> exn + int" where
  "get_next_wallet_number w fs =
     (case list_wallets w fs of
        Inl e \<Rightarrow> Inl e
      | Inr wallet_names \<Rightarrow> Inr (foldl highest_step 0 wallet_names + 1))"

text \<open>
  The account that the wallet SDK mints (\<^verbatim>\<open>Account.create_new\<close>): its address, its
  encrypted key (bytes) and the script of its contract, when it has one. The SDK call and
  \<^verbatim>\<open>json.dumps\<close> are parameters of \<open>create_wallet\<close>.
\<close>

record account =
  address :: string
  encrypted_key :: string
  contract :: "string option"

record contract_dict =
  cd_script :: string
  cd_parameters :: "(string \<times> string) list"
  cd_deployed :: bool

record account_dict =
  ad_address :: string
  ad_label :: string
  ad_lock :: bool
  ad_key :: "nat list"
  ad_contract :: contract_dict
  ad_extra :: "unit option"
  ad_isDefault :: bool

record wallet_data =
  wd_name :: string
  wd_version :: string
  wd_scrypt :: "int \<times> int \<times> int"
  wd_accounts :: "account_dict list"
  wd_extra :: "unit option"

definition hex_digit :: "nat \<Rightarrow> char" where
  "hex_digit n = (if n < 10 then char_of (48 + n) else char_of (87 + n))"

definition hex :: "string \<Rightarrow> string" where
  "hex bs = concat (map (\<lambda>b. [hex_digit (of_char b div 16), hex_digit (of_char b mod 16)]) bs)"

text \<open>\<^verbatim>\<open>Wallet._write_to_vault\<close>: the archive is opened for appending and the entry written.\<close>

definition wallet_write_to_vault ::
    "wallet \<Rightarrow> string \<Rightarrow> wallet_data \<Rightarrow> (wallet_data \<Rightarrow> nat list) \<Rightarrow> date_time \<Rightarrow> fs
      \<Rightarrow> (exn + unit) \<times> fs" where
  "wallet_write_to_vault w wallet_file wd dumps now fs =
     (let es = open_a (fs (vault_path w)) in
      case writestr (vault_password w) now es wallet_file (Str (dumps wd)) of
        Inl e \<Rightarrow> (Inl (RuntimeError ''Error writing to vault: '' (Some e)),
                  fs(vault_path w := Zip es))
      | Inr es' \<Rightarrow> (Inr (), fs(vault_path w := Zip es')))"

text \<open>
  The passphrase ledger \<^verbatim>\<open>F:/KeyMaker/keys.csv\<close> is a resource of its own: the texts written
  to it so far, or a file that cannot be written (PermissionError, or another error of the
  operating system).
\<close>

datatype keys_csv = KeysFile "string list" | KeysDenied | KeysUnavailable

definition record_passphrase ::
    "string \<Rightarrow> string \<Rightarrow> date_time \<Rightarrow> keys_csv \<Rightarrow> (exn + unit) \<times> keys_csv" where
  "record_passphrase wallet_name passphrase now keys =
     (case keys of
        KeysFile ls \<Rightarrow>
          (Inr (), KeysFile (ls @ [wallet_name @ '','' @ strftime_seconds now @ '','' @ passphrase
                                    @ [CHR 0x0A]]))
      | KeysDenied \<Rightarrow>
          (Inl (RuntimeError
             ''Permission issue: Unable to write to F:/KeyMaker/keys.csv. Check file permissions.''
             None), KeysDenied)
      | KeysUnavailable \<Rightarrow>
          (Inl (RuntimeError ''Error recording passphrase: '' (Some OSError)), KeysUnavailable))"

definition creating_wallet_error :: "exn \<Rightarrow> exn" where
  "creating_wallet_error e = RuntimeError ''Error creating wallet: '' (Some e)"

definition build_wallet_data :: "string \<Rightarrow> account \<Rightarrow> nat list \<Rightarrow> wallet_data" where
  "build_wallet_data wallet_name new_account key =
     \<lparr>wd_name = wallet_name,
      wd_version = ''1.0'',
      wd_scrypt = (16384, 8, 8),
      wd_accounts =
        [\<lparr>ad_address = address new_account,
          ad_label = wallet_name,
          ad_lock = False,
          ad_key = key,
          ad_contract =
            \<lparr>cd_script = (case contract new_account of None \<Rightarrow> [] | Some sc \<Rightarrow> hex sc),
             cd_parameters = [(''signature'', ''Signature'')],
             cd_deployed = False\<rparr>,
          ad_extra = None,
          ad_isDefault = True\<rparr>],
      wd_extra = None\<rparr>"

definition create_wallet ::
    "wallet \<Rightarrow> (string \<Rightarrow> exn + account) \<Rightarrow> (wallet_data \<Rightarrow> nat list) \<Rightarrow> date_time \<Rightarrow> string
      \<Rightarrow> fs \<times> keys_csv \<Rightarrow> (exn + string) \<times> fs \<times> keys_csv" where
  "create_wallet w create_new dumps now passphrase world =
     (case world of (fs, keys) \<Rightarrow>
        (case get_next_wallet_number w fs of
           Inl e \<Rightarrow> (Inl (creating_wallet_error e), fs, keys)
         | Inr wallet_number \<Rightarrow>
             (case create_new passphrase of
                Inl e \<Rightarrow> (Inl (creating_wallet_error e), fs, keys)
              | Inr new_account \<Rightarrow>
                  (let wallet_name = ''Matrix_User_'' @ str_int wallet_number;
                       wallet_file = wallet_name @ ''.json''
                   in case utf8_decode (encrypted_key new_account) of
                        None \<Rightarrow> (Inl (creating_wallet_error UnicodeDecodeError), fs, keys)
                      | Some key \<Rightarrow>
                          (case wallet_write_to_vault w wallet_file
                                  (build_wallet_data wallet_name new_account key) dumps now fs of
                             (Inl e, fs') \<Rightarrow> (Inl (creating_wallet_error e), fs', keys)
                           | (Inr u, fs') \<Rightarrow>
                               (case record_passphrase wallet_file passphrase now keys of
                                  (Inl e, keys') \<Rightarrow> (Inl (creating_wallet_error e), fs', keys')
                                | (Inr u', keys') \<Rightarrow> (Inr wallet_file, fs', keys')))))))"

subsection \<open>gui.py: save_api_keys\<close>







subsection \<open>stats.py: class StatsManager\<close>







subsection \<open>What the specification says, for comparison\<close>

text \<open>
  The wallet number of a name, as the specification words it: the name is
  \<^verbatim>\<open>Matrix_User_<N>.json\<close> and the text between the prefix and the extension parses as an
  integer. The next number is one more than the largest of them, and 1 when there is none.
\<close>

definition spec_wallet_number :: "string \<Rightarrow> int option" where
  "spec_wallet_number name =
     (if startswith name ''Matrix_User_'' \<and> endswith name ''.json'' then
        (case py_int (take (length name - length ''Matrix_User_'' - length ''.json'')
                       (drop (length ''Matrix_User_'') name)) of
           Inl e \<Rightarrow> None
         | Inr number \<Rightarrow> Some number)
      else None)"

definition spec_next_wallet_number :: "string list \<Rightarrow> int" where
  "spec_next_wallet_number names = fold max (List.map_filter spec_wallet_number names) 0 + 1"






subsection \<open>Sequences of calls\<close>

text \<open>
  A sequence of \<^verbatim>\<open>create_wallet\<close> calls on one Wallet object, as the loop of
  \<^verbatim>\<open>_create_wallets_thread\<close> in \<^verbatim>\<open>console.py\<close> makes them; every call has its own outcome of
  the SDK, its own clock and its own passphrase. The results of all the calls are
  collected.
\<close>

fun create_wallets ::
    "wallet \<Rightarrow> (wallet_data \<Rightarrow> nat list) \<Rightarrow> ((string \<Rightarrow> exn + account) \<times> date_time \<times> string) list
      \<Rightarrow> fs \<times> keys_csv \<Rightarrow> (exn + string) list \<times> fs \<times> keys_csv" where
  "create_wallets w dumps [] world = ([], world)"
| "create_wallets w dumps ((create_new, now, passphrase) # calls) world =
     (case create_wallet w create_new dumps now passphrase world of
        (res, world') \<Rightarrow>
          (case create_wallets w dumps calls world' of
             (ress, world'') \<Rightarrow> (res # ress, world'')))"

text \<open>Reading one record of the archive at a path, under a password.\<close>

definition read_record :: "fs \<Rightarrow> string \<Rightarrow> string \<Rightarrow> string \<Rightarrow> exn + string" where
  "read_record fs p pwd name =
     (case open_r (fs p) of
        Inl e \<Rightarrow> Inl e
      | Inr es \<Rightarrow> zf_read pwd es name)"


section \<open>Lemmas\<close>

subsection \<open>UTF-8: decoding undoes encoding\<close>







subsection \<open>The archive\<close>

lemma char_eq_nat: "(c = d) = ((of_char c :: nat) = of_char d)"
  by simp


lemma getinfo_append_same:
  "filename e = name \<Longrightarrow> getinfo (es @ [e]) name = Inr e"
  by (simp add: getinfo_def)

lemma getinfo_append_other:
  "filename e \<noteq> name \<Longrightarrow> getinfo (es @ [e]) name = getinfo es name"
  by (simp add: getinfo_def)

lemma open_a_Zip [simp]: "open_a (Zip es) = es"
  by (simp add: open_a_def)

subsection \<open>Vault.write_to_vault\<close>

lemma write_attempt_file:
  "write_attempt pw now f name d = (r, f') \<Longrightarrow> open_a f' = open_a f \<or> r = Inr ()"
  by (auto simp: write_attempt_def Let_def split: if_splits sum.splits)




text \<open>
  A name that the listing already has is refused: the three passes of the loop all raise
  the duplicate error, the last one wraps it, and the file is as it was.
\<close>

lemma write_loop_duplicate:
  "file_name \<in> set (namelist es) \<Longrightarrow> 0 < n \<Longrightarrow>
     write_loop n pw now file_name d (Zip es) =
       (Inl (RuntimeError ''Failed to write to vault after 3 attempts: ''
               (Some (RuntimeError (''Duplicate file name: '' @ file_name) None))), Zip es)"
proof (induction n)
  case 0
  then show ?case by simp
next
  case (Suc n)
  then show ?case by (cases n) (simp_all add: write_attempt_def)
qed

lemma write_to_vault_duplicate:
  assumes "path v = Some p" "password v = Some pw" "p \<noteq> []" "pw \<noteq> []"
    and "fs p = Zip es" "file_name \<in> set (namelist es)"
  shows "write_to_vault v file_name d now fs =
           (Inl (RuntimeError ''Failed to write to vault after 3 attempts: ''
               (Some (RuntimeError (''Duplicate file name: '' @ file_name) None))), fs)"
proof -
  have "write_loop 3 pw now file_name d (Zip es) =
       (Inl (RuntimeError ''Failed to write to vault after 3 attempts: ''
               (Some (RuntimeError (''Duplicate file name: '' @ file_name) None))), Zip es)"
    using assms(6) by (intro write_loop_duplicate) simp_all
  moreover have "fs(p := Zip es) = fs" using assms(5) by auto
  ultimately show ?thesis using assms by (simp add: write_to_vault_def)
qed

subsection \<open>Formatting and parsing wallet numbers\<close>

lemma is_digit_char_of: "(d::nat) < 10 \<Longrightarrow> is_digit (char_of (48 + d))"
  by (simp add: is_digit_def)

lemma digit_val_char_of: "(d::nat) < 10 \<Longrightarrow> digit_val (char_of (48 + d)) = d"
  by (simp add: digit_val_def)

lemma str_nat_digits: "c \<in> set (str_nat n) \<Longrightarrow> is_digit c"
proof (induction n rule: str_nat.induct)
  case (1 n)
  show ?case
  proof (cases "n < 10")
    case True
    with "1.prems" show ?thesis by (simp add: str_nat.simps[of n] is_digit_char_of)
  next
    case False
    with "1.prems" "1.IH" show ?thesis
      by (auto simp: str_nat.simps[of n] is_digit_char_of)
  qed
qed

lemma str_nat_nonempty: "str_nat n \<noteq> []"
  by (simp add: str_nat.simps[of n])

lemma digits_acc_all_digits:
  "\<forall>c \<in> set ds. is_digit c \<Longrightarrow>
     digits_acc a ds = Some (foldl (\<lambda>a c. 10 * a + digit_val c) a ds)"
  by (induction ds arbitrary: a) auto

lemma foldl_str_nat: "foldl (\<lambda>a c. 10 * a + digit_val c) 0 (str_nat n) = n"
proof (induction n rule: str_nat.induct)
  case (1 n)
  show ?case
  proof (cases "n < 10")
    case True
    then show ?thesis by (simp add: str_nat.simps[of n] digit_val_char_of)
  next
    case False
    with "1.IH" show ?thesis
      by (simp add: str_nat.simps[of n] digit_val_char_of)
  qed
qed

lemma digits_str_nat: "digits (str_nat n) = Some n"
proof -
  obtain c cs where s: "str_nat n = c # cs" using str_nat_nonempty[of n] by (cases "str_nat n") auto
  have d: "\<forall>x \<in> set (c # cs). is_digit x" using str_nat_digits[of _ n] s by auto
  have "digits (c # cs) = Some (foldl (\<lambda>a c. 10 * a + digit_val c) 0 (c # cs))"
    using d by (simp add: digits_def digits_acc_all_digits)
  then show ?thesis using foldl_str_nat[of n] s by simp
qed

lemma digit_not_special:
  "is_digit c \<Longrightarrow> \<not> is_space c \<and> c \<noteq> CHR ''-'' \<and> c \<noteq> CHR ''+'' \<and> c \<noteq> CHR ''M'' \<and> c \<noteq> CHR ''.''"
  by (auto simp: is_digit_def is_space_def)

lemma dropWhile_hd: "s \<noteq> [] \<Longrightarrow> \<not> P (hd s) \<Longrightarrow> dropWhile P s = s"
  by (cases s) auto

lemma py_int_digits:
  assumes "s \<noteq> []" "\<forall>c \<in> set s. is_digit c" "digits s = Some n"
  shows "py_int s = Inr (int n)"
proof -
  have h: "is_digit (hd s)" "is_digit (last s)" using assms by auto
  have a: "dropWhile is_space s = s" using assms(1) h digit_not_special by (simp add: dropWhile_hd)
  have "rev s \<noteq> []" "\<not> is_space (hd (rev s))" using assms(1) h digit_not_special by (simp_all add: hd_rev)
  then have b: "dropWhile is_space (rev s) = rev s" by (rule dropWhile_hd)
  show ?thesis using a b h digit_not_special[of "hd s"] assms
    by (simp add: py_int_def Let_def)
qed

lemma py_int_str_nat: "py_int (str_nat n) = Inr (int n)"
  using py_int_digits[OF str_nat_nonempty _ digits_str_nat] str_nat_digits by blast

lemma py_replace_absent:
  "old \<noteq> [] \<Longrightarrow> hd old \<notin> set s \<Longrightarrow> py_replace old [] s = s"
proof (induction s)
  case Nil
  then show ?case by simp
next
  case (Cons c s)
  have "\<not> startswith (c # s) old"
  proof
    assume "startswith (c # s) old"
    then have "take (length old) (c # s) = old" by (simp add: startswith_def)
    then have "hd old = c" using Cons.prems(1) by (cases old) auto
    with Cons.prems show False by simp
  qed
  with Cons show ?case by simp
qed

lemma py_replace_prefix:
  "old \<noteq> [] \<Longrightarrow> py_replace old [] (old @ s) = py_replace old [] s"
  by (cases old) (simp_all add: startswith_def)

lemma py_replace_suffix:
  "old \<noteq> [] \<Longrightarrow> hd old \<notin> set ds \<Longrightarrow> py_replace old [] (ds @ old) = ds"
proof (induction ds)
  case Nil
  then show ?case using py_replace_prefix[of old "[]"] by simp
next
  case (Cons c ds)
  have "\<not> startswith (c # ds @ old) old"
  proof
    assume "startswith (c # ds @ old) old"
    then have "take (length old) (c # ds @ old) = old" by (simp add: startswith_def)
    then have "hd old = c" using Cons.prems(1) by (cases old) auto
    with Cons.prems show False by simp
  qed
  with Cons show ?case by simp
qed

lemma number_str_wallet_file:
  "py_replace ''.json'' [] (py_replace ''Matrix_User_'' [] (''Matrix_User_'' @ str_nat n @ ''.json''))
     = str_nat n"
proof -
  have m: "CHR ''M'' \<notin> set (str_nat n @ ''.json'')"
    using str_nat_digits[of "CHR ''M''" n] digit_not_special[of "CHR ''M''"] by auto
  have d: "CHR ''.'' \<notin> set (str_nat n)"
    using str_nat_digits[of "CHR ''.''" n] digit_not_special[of "CHR ''.''"] by auto
  have "py_replace ''Matrix_User_'' [] (''Matrix_User_'' @ (str_nat n @ ''.json'')) =
          py_replace ''Matrix_User_'' [] (str_nat n @ ''.json'')"
    by (rule py_replace_prefix) simp
  also have "\<dots> = str_nat n @ ''.json''"
    using m by (intro py_replace_absent) simp_all
  finally have a: "py_replace ''Matrix_User_'' [] (''Matrix_User_'' @ str_nat n @ ''.json'') = str_nat n @ ''.json''" .
  have "py_replace ''.json'' [] (str_nat n @ ''.json'') = str_nat n"
    using d by (intro py_replace_suffix) simp_all
  with a show ?thesis by simp
qed

lemma highest_step_wallet_file:
  "highest_step h (''Matrix_User_'' @ str_nat n @ ''.json'') = max h (int n)"
  using number_str_wallet_file[of n]
  by (simp add: highest_step_def py_int_str_nat max_def del: append.simps)

lemma highest_step_ge: "h \<le> highest_step h name"
  by (simp add: highest_step_def Let_def split: sum.splits)

lemma foldl_highest_ge: "h \<le> foldl highest_step h names"
proof (induction names arbitrary: h)
  case Nil
  then show ?case by simp
next
  case (Cons a names)
  have "h \<le> highest_step h a" by (rule highest_step_ge)
  also have "\<dots> \<le> foldl highest_step (highest_step h a) names" by (rule Cons.IH)
  finally show ?case by simp
qed


lemma str_int_nonneg: "0 \<le> i \<Longrightarrow> str_int i = str_nat (nat i)"
  by (simp add: str_int_def)


subsection \<open>Wallet.create_wallet\<close>

lemma startswith_append [simp]: "startswith (p @ s) p"
  by (simp add: startswith_def)

lemma endswith_append [simp]: "endswith (s @ p) p"
  by (simp add: endswith_def)

lemma wallet_file_is_wallet:
  "startswith (''Matrix_User_'' @ s @ ''.json'') ''Matrix_User_'' \<and>
   endswith (''Matrix_User_'' @ s @ ''.json'') ''.json''"
  using startswith_append[of "''Matrix_User_''" "s @ ''.json''"]
        endswith_append[of "''Matrix_User_'' @ s" "''.json''"]
  by simp

lemma list_wallets_Zip:
  "fs (vault_path w) = Zip es \<Longrightarrow>
     list_wallets w fs =
       Inr (filter (\<lambda>name. startswith name ''Matrix_User_'' \<and> endswith name ''.json'') (namelist es))"
  by (simp add: list_wallets_def open_r_def)

lemma get_next_Inr:
  "get_next_wallet_number w fs = Inr n \<Longrightarrow>
     \<exists>es. fs (vault_path w) = Zip es \<and>
          n = foldl highest_step 0
                (filter (\<lambda>name. startswith name ''Matrix_User_'' \<and> endswith name ''.json'')
                   (namelist es)) + 1"
  by (auto simp: get_next_wallet_number_def list_wallets_def open_r_def
           split: sum.splits disk_file.splits)

lemma wallet_write_ok:
  "wallet_write_to_vault w wallet_file wd dumps now fs = (Inr u, fs') \<Longrightarrow>
     \<exists>b. utf8_encode (dumps wd) = Some b \<and> vault_password w \<noteq> [] \<and>
         fs' = fs(vault_path w := Zip (open_a (fs (vault_path w)) @
                  [\<lparr>filename = wallet_file, content = b, enc_key = vault_password w,
                    date_time = now\<rparr>]))"
  by (auto simp: wallet_write_to_vault_def writestr_def encode_data_def Let_def
           split: sum.splits option.splits if_splits)


text \<open>
  \<^verbatim>\<open>Wallet._write_to_vault\<close> does not look at the listing: under a password that is not empty
  and with a document that can be encoded it appends, whatever names the archive has.
\<close>

lemma wallet_write_always_appends:
  "vault_password w \<noteq> [] \<Longrightarrow> utf8_encode (dumps wd) = Some b \<Longrightarrow>
     wallet_write_to_vault w wallet_file wd dumps now fs =
       (Inr (), fs(vault_path w := Zip (open_a (fs (vault_path w)) @
                  [\<lparr>filename = wallet_file, content = b, enc_key = vault_password w,
                    date_time = now\<rparr>])))"
  by (simp add: wallet_write_to_vault_def writestr_def encode_data_def)

lemma create_wallet_Inr:
  assumes "create_wallet w create_new dumps now passphrase (fs, keys) = (Inr wallet_file, fs', keys')"
  shows "\<exists>n new_account key b ls.
           get_next_wallet_number w fs = Inr n \<and>
           create_new passphrase = Inr new_account \<and>
           utf8_decode (encrypted_key new_account) = Some key \<and>
           wallet_file = ''Matrix_User_'' @ str_int n @ ''.json'' \<and>
           utf8_encode (dumps (build_wallet_data (''Matrix_User_'' @ str_int n) new_account key)) = Some b \<and>
           vault_password w \<noteq> [] \<and>
           fs' = fs(vault_path w := Zip (open_a (fs (vault_path w)) @
                  [\<lparr>filename = wallet_file, content = b, enc_key = vault_password w,
                    date_time = now\<rparr>])) \<and>
           keys = KeysFile ls \<and>
           keys' = KeysFile (ls @ [wallet_file @ '','' @ strftime_seconds now @ '','' @ passphrase @ [CHR 0x0A]])"
proof -
  from assms obtain n where n: "get_next_wallet_number w fs = Inr n"
    by (auto simp: create_wallet_def split: sum.splits)
  from assms n obtain a where a: "create_new passphrase = Inr a"
    by (auto simp: create_wallet_def split: sum.splits)
  from assms n a obtain key where k: "utf8_decode (encrypted_key a) = Some key"
    by (auto simp: create_wallet_def Let_def split: option.splits)
  let ?wf = "''Matrix_User_'' @ str_int n @ ''.json''"
  let ?wd = "build_wallet_data (''Matrix_User_'' @ str_int n) a key"
  obtain r g where wr: "wallet_write_to_vault w ?wf ?wd dumps now fs = (r, g)"
    by (cases "wallet_write_to_vault w ?wf ?wd dumps now fs")
  from assms n a k wr obtain u where r: "r = Inr u"
    by (cases r) (auto simp: create_wallet_def Let_def)
  obtain r2 k2 where rp: "record_passphrase ?wf passphrase now keys = (r2, k2)"
    by (cases "record_passphrase ?wf passphrase now keys")
  from assms n a k wr r rp have res: "g = fs'" "k2 = keys'" "wallet_file = ?wf" "\<exists>u'. r2 = Inr u'"
    by (cases r2; auto simp: create_wallet_def Let_def)+
  from rp res obtain ls where ls: "keys = KeysFile ls"
    "keys' = KeysFile (ls @ [?wf @ '','' @ strftime_seconds now @ '','' @ passphrase @ [CHR 0x0A]])"
    by (auto simp: record_passphrase_def split: keys_csv.splits)
  from wallet_write_ok[OF wr[unfolded r]] res n a k ls show ?thesis by auto
qed

lemma get_next_after_create:
  assumes "create_wallet w create_new dumps now passphrase (fs, keys) = (Inr wallet_file, fs', keys')"
  shows "\<exists>n. get_next_wallet_number w fs = Inr n \<and> 1 \<le> n \<and>
             wallet_file = ''Matrix_User_'' @ str_int n @ ''.json'' \<and>
             get_next_wallet_number w fs' = Inr (n + 1)"
proof -
  from create_wallet_Inr[OF assms] obtain n b where
    n: "get_next_wallet_number w fs = Inr n"
    and wf: "wallet_file = ''Matrix_User_'' @ str_int n @ ''.json''"
    and fs': "fs' = fs(vault_path w := Zip (open_a (fs (vault_path w)) @
                  [\<lparr>filename = wallet_file, content = b, enc_key = vault_password w,
                    date_time = now\<rparr>]))"
    by blast
  let ?P = "\<lambda>name. startswith name ''Matrix_User_'' \<and> endswith name ''.json''"
  from get_next_Inr[OF n] obtain es where
    es: "fs (vault_path w) = Zip es" and nn: "n = foldl highest_step 0 (filter ?P (namelist es)) + 1"
    by blast
  let ?h = "foldl highest_step 0 (filter ?P (namelist es))"
  have h0: "0 \<le> ?h" by (rule foldl_highest_ge)
  then have n1: "1 \<le> n" using nn by simp
  have sn: "str_int n = str_nat (nat n)" using n1 by (simp add: str_int_nonneg)
  have P: "?P wallet_file" unfolding wf using wallet_file_is_wallet[of "str_int n"] .
  have "filter ?P (namelist (es @ [\<lparr>filename = wallet_file, content = b,
            enc_key = vault_password w, date_time = now\<rparr>])) = filter ?P (namelist es) @ [wallet_file]"
    using P by (simp add: namelist_def)
  then have "get_next_wallet_number w fs' = Inr (highest_step ?h wallet_file + 1)"
    using fs' es by (simp add: get_next_wallet_number_def list_wallets_def open_r_def)
  moreover have "highest_step ?h wallet_file = max ?h (int (nat n))"
    unfolding wf sn by (rule highest_step_wallet_file)
  ultimately show ?thesis using n n1 nn wf by (auto simp: max_def)
qed



text \<open>A first wallet, created in a fresh vault.\<close>

lemma create_wallet_example:
  "fst (create_wallet \<lparr>vault_path = ''vault.zip'', vault_password = ''p@ss1''\<rparr>
          (\<lambda>pw. Inr \<lparr>address = ''NQk'', encrypted_key = ''6PY'', contract = None\<rparr>)
          (\<lambda>d. [123, 125]) (2024, 1, 6, 9, 30, 0) ''walletpass''
          ((\<lambda>p. Missing)(''vault.zip'' :=
             Zip [\<lparr>filename = ''vault_initialized.txt'',
                   content = ''Vault is encrypted and ready.'',
                   enc_key = ''p@ss1'', date_time = (2024, 1, 5, 10, 0, 0)\<rparr>]),
           KeysFile [])) = Inr ''Matrix_User_1.json''"
  by (simp add: create_wallet_def get_next_wallet_number_def list_wallets_def open_r_def
        namelist_def startswith_def endswith_def wallet_write_to_vault_def writestr_def
        encode_data_def utf8_encode_cp_def utf8_decode_def str_int_def str_nat.simps
        record_passphrase_def open_a_def Let_def char_eq_nat)

text \<open>
  On the names that \<^verbatim>\<open>create_wallet\<close> generates, the number that the code extracts is the one
  that the specification reads off the name, and the next number is the specified one.
\<close>

lemma spec_wallet_number_wallet_file:
  "spec_wallet_number (''Matrix_User_'' @ str_nat n @ ''.json'') = Some (int n)"
proof -
  have "take (length (''Matrix_User_'' @ str_nat n @ ''.json'') - length ''Matrix_User_''
                - length ''.json'')
          (drop (length ''Matrix_User_'') (''Matrix_User_'' @ str_nat n @ ''.json'')) = str_nat n"
    by simp
  then show ?thesis
    unfolding spec_wallet_number_def
    by (simp only: wallet_file_is_wallet[of "str_nat n"] py_int_str_nat if_True simp_thms sum.case)
qed

lemma fold_max_highest_step:
  "\<forall>name \<in> set names. \<exists>n. name = ''Matrix_User_'' @ str_nat n @ ''.json'' \<Longrightarrow>
     foldl highest_step h names = fold max (List.map_filter spec_wallet_number names) h"
proof (induction names arbitrary: h)
  case Nil
  then show ?case by (simp add: List.map_filter_def)
next
  case (Cons a names)
  then obtain n where a: "a = ''Matrix_User_'' @ str_nat n @ ''.json''" by auto
  have "highest_step h a = max (int n) h"
    unfolding a using highest_step_wallet_file[of h n] by (simp add: max.commute)
  moreover have "List.map_filter spec_wallet_number (a # names) =
                   int n # List.map_filter spec_wallet_number names"
    unfolding a using spec_wallet_number_wallet_file[of n]
    by (simp add: List.map_filter_def del: append.simps)
  ultimately show ?case using Cons by simp
qed

lemma next_number_agrees_on_generated_names:
  assumes "fs (vault_path w) = Zip es"
    and "\<forall>name \<in> set (namelist es).
           startswith name ''Matrix_User_'' \<and> endswith name ''.json'' \<longrightarrow>
           (\<exists>n. name = ''Matrix_User_'' @ str_nat n @ ''.json'')"
  shows "get_next_wallet_number w fs =
           Inr (spec_next_wallet_number
                  (filter (\<lambda>name. startswith name ''Matrix_User_'' \<and> endswith name ''.json'')
                     (namelist es)))"
  using assms fold_max_highest_step[of
      "filter (\<lambda>name. startswith name ''Matrix_User_'' \<and> endswith name ''.json'') (namelist es)" 0]
  by (simp add: get_next_wallet_number_def list_wallets_Zip spec_next_wallet_number_def)

text \<open>
  Successful calls in a row number their wallets consecutively: when the vault's next
  number is \<open>h + 1\<close> and every call of the sequence returns a name, the names are those of
  \<open>h + 1\<close>, \<open>h + 2\<close>, ... in this order.
\<close>

lemma create_wallets_numbers:
  assumes "create_wallets w dumps calls (fs, keys) = (ress, world')"
    and "\<forall>r \<in> set ress. \<exists>name. r = Inr name"
    and "get_next_wallet_number w fs = Inr (h + 1)"
  shows "ress = map (\<lambda>i. Inr (''Matrix_User_'' @ str_int (h + 1 + int i) @ ''.json'')) [0..<length calls]"
  using assms
proof (induction calls arbitrary: fs keys ress h world')
  case Nil
  then show ?case by simp
next
  case (Cons c calls)
  obtain create_new now passphrase where c: "c = (create_new, now, passphrase)" by (cases c)
  obtain res fs1 keys1 where cw: "create_wallet w create_new dumps now passphrase (fs, keys) = (res, fs1, keys1)"
    by (cases "create_wallet w create_new dumps now passphrase (fs, keys)")
  obtain rest world2 where cs: "create_wallets w dumps calls (fs1, keys1) = (rest, world2)"
    by (cases "create_wallets w dumps calls (fs1, keys1)")
  from Cons.prems(1) c cw cs have ress: "ress = res # rest" by simp
  with Cons.prems(2) obtain name where res: "res = Inr name" by auto
  from get_next_after_create[OF cw[unfolded res]] Cons.prems(3)
  have name: "name = ''Matrix_User_'' @ str_int (h + 1) @ ''.json''"
    and nx: "get_next_wallet_number w fs1 = Inr ((h + 1) + 1)" by auto
  have "rest = map (\<lambda>i. Inr (''Matrix_User_'' @ str_int ((h + 1) + 1 + int i) @ ''.json'')) [0..<length calls]"
    using Cons.IH[OF cs _ nx] Cons.prems(2) ress by simp
  moreover have "h + 1 + 1 + int i = h + 1 + int (Suc i)" for i by simp
  ultimately have "rest = map (\<lambda>i. Inr (''Matrix_User_'' @ str_int (h + 1 + int i) @ ''.json'')) (map Suc [0..<length calls])"
    by (simp only: map_map comp_def)
  then show ?case using ress res name
    by (simp add: upt_conv_Cons map_Suc_upt del: upt_Suc)
qed

subsection \<open>save_api_keys\<close>














subsection \<open>StatsManager.get_wallet_volume_trend\<close>













section \<open>The claims\<close>

subsection \<open>C1: reading back what was appended\<close>




subsection \<open>C2: the next wallet number\<close>

text \<open>
  C2 says that \<^verbatim>\<open>get_next_wallet_number\<close> returns one more than the largest \<open>N\<close> of the wallet
  records named \<^verbatim>\<open>Matrix_User_<N>.json\<close>, skipping the names whose suffix does not parse as an
  integer. The code does not take the text between the prefix and the extension: it deletes
  every occurrence of \<^verbatim>\<open>Matrix_User_\<close> and of \<^verbatim>\<open>.json\<close> from the name and parses what is left.
  For the one record \<^verbatim>\<open>Matrix_User_1.json2.json\<close>, whose suffix \<^verbatim>\<open>1.json2\<close> is no integer, it
  returns 13, where the claim (and the docstring of the method) gives 1. The numbering of
  wallets that \<^verbatim>\<open>create_wallet\<close> itself names is as C2 says (lemmas
  \<open>next_number_agrees_on_generated_names\<close> and \<open>create_wallets_numbers\<close> above).
\<close>

theorem next_number_counts_malformed_name:
  "get_next_wallet_number \<lparr>vault_path = ''vault.zip'', vault_password = ''p@ss1''\<rparr>
     ((\<lambda>p. Missing)(''vault.zip'' :=
        Zip [\<lparr>filename = ''Matrix_User_1.json2.json'', content = ''{}'', enc_key = ''p@ss1'',
              date_time = (2024, 1, 5, 10, 0, 0)\<rparr>])) = Inr 13 \<and>
   spec_next_wallet_number [''Matrix_User_1.json2.json''] = 1"
  by (simp add: get_next_wallet_number_def list_wallets_def open_r_def namelist_def
        startswith_def endswith_def highest_step_def py_int_def digits_def is_digit_def
        is_space_def digit_val_def Let_def spec_next_wallet_number_def spec_wallet_number_def
        List.map_filter_def)

subsection \<open>C3: appending under a name that is already there\<close>

text \<open>
  C3 says that appending under a name that the vault already has fails with a duplicate-name
  error and leaves the archive as it was. \<^verbatim>\<open>Vault.write_to_vault\<close> does so (lemma
  \<open>write_to_vault_duplicate\<close>). \<^verbatim>\<open>Wallet._write_to_vault\<close>, the append that \<^verbatim>\<open>create_wallet\<close>
  uses, does not check the listing: on a vault that holds \<^verbatim>\<open>Matrix_User_1.json\<close> it returns
  normally and the archive then has two entries of that name.
\<close>

theorem wallet_write_duplicate_appends:
  "fst (wallet_write_to_vault \<lparr>vault_path = ''vault.zip'', vault_password = ''p@ss1''\<rparr>
      ''Matrix_User_1.json''
      (build_wallet_data ''Matrix_User_1'' \<lparr>address = ''NQk'', encrypted_key = ''6PY'', contract = None\<rparr> [54, 80, 89])
      (\<lambda>d. [123, 125]) (2024, 1, 6, 9, 30, 0)
      ((\<lambda>p. Missing)(''vault.zip'' :=
         Zip [\<lparr>filename = ''Matrix_User_1.json'', content = ''old'', enc_key = ''p@ss1'',
               date_time = (2024, 1, 5, 10, 0, 0)\<rparr>]))) = Inr () \<and>
   snd (wallet_write_to_vault \<lparr>vault_path = ''vault.zip'', vault_password = ''p@ss1''\<rparr>
      ''Matrix_User_1.json''
      (build_wallet_data ''Matrix_User_1'' \<lparr>address = ''NQk'', encrypted_key = ''6PY'', contract = None\<rparr> [54, 80, 89])
      (\<lambda>d. [123, 125]) (2024, 1, 6, 9, 30, 0)
      ((\<lambda>p. Missing)(''vault.zip'' :=
         Zip [\<lparr>filename = ''Matrix_User_1.json'', content = ''old'', enc_key = ''p@ss1'',
               date_time = (2024, 1, 5, 10, 0, 0)\<rparr>]))) ''vault.zip'' =
     Zip [\<lparr>filename = ''Matrix_User_1.json'', content = ''old'', enc_key = ''p@ss1'',
               date_time = (2024, 1, 5, 10, 0, 0)\<rparr>,
          \<lparr>filename = ''Matrix_User_1.json'', content = ''{}'', enc_key = ''p@ss1'',
               date_time = (2024, 1, 6, 9, 30, 0)\<rparr>]"
  by (simp add: wallet_write_to_vault_def open_a_def writestr_def encode_data_def
        utf8_encode_cp_def char_eq_nat)

subsection \<open>C4: a rewrite that fails partway\<close>




subsection \<open>C5: the other records keep their payload\<close>



subsection \<open>C6: validating under a wrong passphrase\<close>




subsection \<open>C7: no second attempt\<close>




subsection \<open>C8: a ledger that cannot be written\<close>

text \<open>
  C8 says that a failure to write the passphrase ledger is logged and never raised to the
  caller of \<^verbatim>\<open>create_wallet\<close>. It is raised: with a ledger that denies the write, the call
  ends in RuntimeError "Error creating wallet".
\<close>

theorem ledger_failure_raised_counterexample:
  "fst (create_wallet \<lparr>vault_path = ''vault.zip'', vault_password = ''p@ss1''\<rparr>
          (\<lambda>pw. Inr \<lparr>address = ''NQk'', encrypted_key = ''6PY'', contract = None\<rparr>)
          (\<lambda>d. [123, 125]) (2024, 1, 6, 9, 30, 0) ''walletpass''
          ((\<lambda>p. Missing)(''vault.zip'' :=
             Zip [\<lparr>filename = ''vault_initialized.txt'',
                   content = ''Vault is encrypted and ready.'',
                   enc_key = ''p@ss1'', date_time = (2024, 1, 5, 10, 0, 0)\<rparr>]),
           KeysDenied)) =
     Inl (RuntimeError ''Error creating wallet: ''
            (Some (RuntimeError
               ''Permission issue: Unable to write to F:/KeyMaker/keys.csv. Check file permissions.''
               None)))"
  by (simp add: create_wallet_def get_next_wallet_number_def list_wallets_def open_r_def
        namelist_def startswith_def endswith_def wallet_write_to_vault_def writestr_def
        encode_data_def utf8_encode_cp_def utf8_decode_def str_int_def str_nat.simps
        record_passphrase_def open_a_def Let_def creating_wallet_error_def char_eq_nat)

text \<open>
  C8, amended: when a call of \<^verbatim>\<open>create_wallet\<close> that succeeds with a writable ledger is made
  with a ledger that cannot be written, it raises RuntimeError "Error creating wallet"
  carrying the error of \<^verbatim>\<open>record_passphrase\<close>; the vault is the one that the successful call
  leaves, so the wallet record is committed and can be read, and nothing is rolled back.
\<close>

theorem create_wallet_ledger_failure:
  assumes "create_wallet w create_new dumps now passphrase (fs, KeysFile ls) =
             (Inr wallet_file, fs1, keys1)"
    and "keys = KeysDenied \<or> keys = KeysUnavailable"
  shows "create_wallet w create_new dumps now passphrase (fs, keys) =
           (Inl (RuntimeError ''Error creating wallet: ''
              (Some (if keys = KeysDenied
                     then RuntimeError
                       ''Permission issue: Unable to write to F:/KeyMaker/keys.csv. Check file permissions.''
                       None
                     else RuntimeError ''Error recording passphrase: '' (Some OSError)))),
            fs1, keys) \<and>
         (\<exists>b. read_record fs1 (vault_path w) (vault_password w) wallet_file = Inr b)"
proof -
  from create_wallet_Inr[OF assms(1)] obtain n a key b where
    n: "get_next_wallet_number w fs = Inr n"
    and a: "create_new passphrase = Inr a"
    and k: "utf8_decode (encrypted_key a) = Some key"
    and wf: "wallet_file = ''Matrix_User_'' @ str_int n @ ''.json''"
    and b: "utf8_encode (dumps (build_wallet_data (''Matrix_User_'' @ str_int n) a key)) = Some b"
    and pw: "vault_password w \<noteq> []"
    and fs1: "fs1 = fs(vault_path w := Zip (open_a (fs (vault_path w)) @
                  [\<lparr>filename = wallet_file, content = b, enc_key = vault_password w,
                    date_time = now\<rparr>]))"
    by blast
  have wr: "wallet_write_to_vault w wallet_file (build_wallet_data (''Matrix_User_'' @ str_int n) a key)
              dumps now fs = (Inr (), fs1)"
    using b pw fs1 by (simp add: wallet_write_to_vault_def writestr_def encode_data_def)
  have "create_wallet w create_new dumps now passphrase (fs, keys) =
           (Inl (RuntimeError ''Error creating wallet: ''
              (Some (if keys = KeysDenied
                     then RuntimeError
                       ''Permission issue: Unable to write to F:/KeyMaker/keys.csv. Check file permissions.''
                       None
                     else RuntimeError ''Error recording passphrase: '' (Some OSError)))),
            fs1, keys)"
    using assms(2) n a k wr[unfolded wf]
    by (auto simp: create_wallet_def creating_wallet_error_def record_passphrase_def Let_def
             simp del: append.simps)
  moreover have "read_record fs1 (vault_path w) (vault_password w) wallet_file = Inr b"
    using fs1 by (simp add: read_record_def open_r_def zf_read_def getinfo_append_same)
  ultimately show ?thesis by blast
qed

theorem create_wallet_ledger_failure_witness:
  "fst (create_wallet \<lparr>vault_path = ''vault.zip'', vault_password = ''p@ss1''\<rparr>
          (\<lambda>pw. Inr \<lparr>address = ''NQk'', encrypted_key = ''6PY'', contract = None\<rparr>)
          (\<lambda>d. [123, 125]) (2024, 1, 6, 9, 30, 0) ''walletpass''
          ((\<lambda>p. Missing)(''vault.zip'' :=
             Zip [\<lparr>filename = ''vault_initialized.txt'',
                   content = ''Vault is encrypted and ready.'',
                   enc_key = ''p@ss1'', date_time = (2024, 1, 5, 10, 0, 0)\<rparr>]),
           KeysUnavailable)) =
     Inl (RuntimeError ''Error creating wallet: ''
            (Some (RuntimeError ''Error recording passphrase: '' (Some OSError)))) \<and>
   (\<exists>b. read_record
      (fst (snd (create_wallet \<lparr>vault_path = ''vault.zip'', vault_password = ''p@ss1''\<rparr>
          (\<lambda>pw. Inr \<lparr>address = ''NQk'', encrypted_key = ''6PY'', contract = None\<rparr>)
          (\<lambda>d. [123, 125]) (2024, 1, 6, 9, 30, 0) ''walletpass''
          ((\<lambda>p. Missing)(''vault.zip'' :=
             Zip [\<lparr>filename = ''vault_initialized.txt'',
                   content = ''Vault is encrypted and ready.'',
                   enc_key = ''p@ss1'', date_time = (2024, 1, 5, 10, 0, 0)\<rparr>]),
           KeysUnavailable))))
      ''vault.zip'' ''p@ss1'' ''Matrix_User_1.json'' = Inr b)"
proof -
  let ?w = "\<lparr>vault_path = ''vault.zip'', vault_password = ''p@ss1''\<rparr>"
  let ?fs = "(\<lambda>p. Missing)(''vault.zip'' :=
             Zip [\<lparr>filename = ''vault_initialized.txt'',
                   content = ''Vault is encrypted and ready.'',
                   enc_key = ''p@ss1'', date_time = (2024, 1, 5, 10, 0, 0)\<rparr>])"
  let ?C = "create_wallet ?w
          (\<lambda>pw. Inr \<lparr>address = ''NQk'', encrypted_key = ''6PY'', contract = None\<rparr>)
          (\<lambda>d. [123, 125]) (2024, 1, 6, 9, 30, 0) ''walletpass'' (?fs, KeysFile [])"
  have h: "fst ?C = Inr ''Matrix_User_1.json''" by (rule create_wallet_example)
  then have "?C = (Inr ''Matrix_User_1.json'', fst (snd ?C), snd (snd ?C))"
    by (simp add: prod_eq_iff)
  from create_wallet_ledger_failure[OF this, of KeysUnavailable] show ?thesis by simp
qed

subsection \<open>C9: what the statistics return\<close>




subsection \<open>C10: the three lists\<close>




end
